theory Spec2Isabelle
  imports Main "HOL-Library.Word" "HOL-Library.AList"
begin

unbundle bit_operations_syntax

section \<open>Python strings and the built-ins the module calls\<close>

text \<open>
  The module \<^verbatim>\<open>plugins/modules/my_own_module.py\<close> is two functions, \<^verbatim>\<open>write_file\<close>
  and \<^verbatim>\<open>run_module\<close>. Everything else it touches belongs to Python or to the operating
  system: \<^verbatim>\<open>int(mode, 8)\<close>, \<^verbatim>\<open>os.path.dirname\<close>, \<^verbatim>\<open>os.path.isdir\<close>, \<^verbatim>\<open>os.path.exists\<close>,
  \<^verbatim>\<open>open(path, 'w')\<close>, \<^verbatim>\<open>f.write\<close>, \<^verbatim>\<open>os.chmod\<close> and the two exits of
  \<^verbatim>\<open>AnsibleModule\<close>. This section and the next model those (CPython 3 on Linux); the
  section after them embeds the module itself.

  A Python \<^verbatim>\<open>str\<close> is a \<^typ>\<open>string\<close>: the list of its code points, each below 256.
\<close>

subsection \<open>\<^verbatim>\<open>int(s, 8)\<close>\<close>

text \<open>
  CPython's \<^verbatim>\<open>PyLong_FromString\<close> with base 8: leading whitespace, one optional sign, one
  optional prefix \<^verbatim>\<open>0o\<close> or \<^verbatim>\<open>0O\<close> (after which one underscore may follow), then octal
  digits with single underscores between them, then trailing whitespace, and nothing else.
  Whitespace is what \<^verbatim>\<open>Py_ISSPACE\<close> accepts, and the two code points from 127 to 255 that
  Unicode counts as whitespace (NEL and the no-break space), which \<^verbatim>\<open>int\<close> turns into a
  blank before parsing. The code points 28 to 31 are not whitespace for \<^verbatim>\<open>int\<close>.
\<close>

definition py_isspace :: "char \<Rightarrow> bool" where
  "py_isspace c = (of_char c \<in> {9, 10, 11, 12, 13, 32, 133, 160 :: nat})"

definition octal_digit :: "char \<Rightarrow> nat option" where
  "octal_digit c =
     (if (48 :: nat) \<le> of_char c \<and> of_char c \<le> (55 :: nat) then Some (of_char c - 48) else None)"

text \<open>
  The digit loop of \<^verbatim>\<open>long_from_binary_base\<close>: \<open>prev\<close> is the character just read,
  \<open>acc\<close> the value so far. It stops at the first character that is neither an octal digit
  nor an underscore and returns the value with the rest of the string; two underscores in
  a row, or an underscore as the last character read, are a syntax error (\<open>None\<close>).
\<close>

fun scan_digits :: "char \<Rightarrow> nat \<Rightarrow> string \<Rightarrow> (nat \<times> string) option" where
  "scan_digits prev acc [] = (if prev = CHR ''_'' then None else Some (acc, []))"
| "scan_digits prev acc (c # cs) =
     (if c = CHR ''_'' then
        (if prev = CHR ''_'' then None else scan_digits c acc cs)
      else (case octal_digit c of
              Some d \<Rightarrow> scan_digits c (8 * acc + d) cs
            | None \<Rightarrow> (if prev = CHR ''_'' then None else Some (acc, c # cs))))"

definition skip_sign :: "string \<Rightarrow> int \<times> string" where
  "skip_sign s =
     (case s of
        [] \<Rightarrow> (1, s)
      | c # cs \<Rightarrow> if c = CHR ''+'' then (1, cs) else if c = CHR ''-'' then (- 1, cs) else (1, s))"

definition skip_prefix :: "string \<Rightarrow> string" where
  "skip_prefix s =
     (case s of
        c0 # c1 # cs \<Rightarrow>
          if c0 = CHR ''0'' \<and> (c1 = CHR ''o'' \<or> c1 = CHR ''O'') then
            (case cs of u # cs' \<Rightarrow> if u = CHR ''_'' then cs' else cs | [] \<Rightarrow> cs)
          else s
      | _ \<Rightarrow> s)"

text \<open>\<open>None\<close> is the \<^verbatim>\<open>ValueError\<close> of \<^verbatim>\<open>int(s, 8)\<close>.\<close>

definition int8 :: "string \<Rightarrow> int option" where
  "int8 s =
     (let (sign, s1) = skip_sign (dropWhile py_isspace s);
          start = skip_prefix s1
      in case start of
           [] \<Rightarrow> None
         | c # _ \<Rightarrow>
             if c = CHR ''_'' then None
             else (case scan_digits (CHR 0x00) 0 start of
                     None \<Rightarrow> None
                   | Some (n, rest) \<Rightarrow>
                       if length rest = length start then None
                       else if dropWhile py_isspace rest \<noteq> [] then None
                       else Some (sign * int n)))"

subsection \<open>\<^verbatim>\<open>repr\<close> of a string and the texts of exceptions\<close>

definition hex_digit :: "nat \<Rightarrow> char" where
  "hex_digit n = (if n < 10 then char_of (48 + n) else char_of (87 + n))"

definition py_printable :: "char \<Rightarrow> bool" where
  "py_printable c =
     (let n = (of_char c :: nat) in 32 \<le> n \<and> n < 127 \<or> 161 \<le> n \<and> n \<noteq> 173)"

definition repr_char :: "char \<Rightarrow> char \<Rightarrow> string" where
  "repr_char quote c =
     (if c = quote \<or> c = CHR 0x5C then [CHR 0x5C, c]
      else if c = CHR 0x09 then [CHR 0x5C, CHR ''t'']
      else if c = CHR 0x0A then [CHR 0x5C, CHR ''n'']
      else if c = CHR 0x0D then [CHR 0x5C, CHR ''r'']
      else if py_printable c then [c]
      else [CHR 0x5C, CHR ''x'', hex_digit (of_char c div 16), hex_digit (of_char c mod 16)])"

definition py_repr :: "string \<Rightarrow> string" where
  "py_repr s =
     (let quote = (if CHR 0x27 \<in> set s \<and> CHR 0x22 \<notin> set s then CHR 0x22 else CHR 0x27)
      in [quote] @ concat (map (repr_char quote) s) @ [quote])"

text \<open>
  The exceptions that can reach the handler in \<^verbatim>\<open>run_module\<close>, each with the text that
  \<^verbatim>\<open>str(e)\<close> gives. All three are subclasses of \<^verbatim>\<open>Exception\<close>.
\<close>

datatype exn = ValueError string | OverflowError string | OSError string

fun str_exn :: "exn \<Rightarrow> string" where
  "str_exn (ValueError t) = t"
| "str_exn (OverflowError t) = t"
| "str_exn (OSError t) = t"

definition invalid_literal :: "string \<Rightarrow> exn" where
  "invalid_literal s =
     ValueError (''invalid literal for int() with base 8: '' @ take 200 (py_repr s))"

definition os_error :: "nat \<Rightarrow> string \<Rightarrow> string \<Rightarrow> exn" where
  "os_error errno what p =
     OSError (''[Errno '' @ (if errno < 10 then [hex_digit errno]
                            else [hex_digit (errno div 10), hex_digit (errno mod 10)])
              @ ''] '' @ what @ '': '' @ py_repr p)"

subsection \<open>\<^verbatim>\<open>os.path.dirname\<close>\<close>

text \<open>
  \<^verbatim>\<open>posixpath.dirname\<close>: the part of the path up to and including its last slash, with the
  trailing slashes of that part removed unless it consists of slashes only.
\<close>

definition rstrip_sep :: "string \<Rightarrow> string" where
  "rstrip_sep s = rev (dropWhile (\<lambda>c. c = CHR ''/'') (rev s))"

definition os_path_dirname :: "string \<Rightarrow> string" where
  "os_path_dirname p =
     (let head = rev (dropWhile (\<lambda>c. c \<noteq> CHR ''/'') (rev p))
      in if head \<noteq> [] \<and> \<not> (\<forall>c \<in> set head. c = CHR ''/'') then rstrip_sep head else head)"

section \<open>The filesystem and the platform calls\<close>

text \<open>
  The filesystem is what \<^verbatim>\<open>lstat\<close> sees at each path string: nothing, a regular file
  with its content and permission bits, a directory with its permission bits, or a
  symbolic link with the path it leads to (the path to look up next, a relative target
  already resolved). Path strings are taken as they are given: two spellings of one path
  are two keys. The twelve permission bits (mask \<^verbatim>\<open>0o7777\<close>) are a \<^typ>\<open>12 word\<close>. A
  file's content is kept as the text a text-mode read gives back; the codec between text
  and bytes is not modelled.

  The world around one run of the module holds, besides the filesystem: the process
  umask; the opening, writing and permission-setting calls the platform refuses for
  reasons the filesystem map does not show (permission denied, read-only or full disk, an
  embedded null character, ...), each with the exception it raises; how much of a write
  that fails reaches the file; and the log of the platform calls made so far, in order.
\<close>

datatype node = File string "12 word" | Dir "12 word" | Symlink string

datatype call = Stat string | Open_w string | Write string string | Chmod string int

record world =
  nodes :: "string \<rightharpoonup> node"
  umask :: "12 word"
  refuses :: "call \<Rightarrow> exn option"
  flushed :: nat
  calls :: "call list"

definition log_call :: "call \<Rightarrow> world \<Rightarrow> world" where
  "log_call c w = w\<lparr>calls := calls w @ [c]\<rparr>"

text \<open>
  Following the symbolic links at a path, at most \<open>k\<close> of them: the path reached, or
  \<open>None\<close> when the chain is longer (\<^verbatim>\<open>ELOOP\<close>; Linux follows at most 40 links).
\<close>

fun resolve :: "nat \<Rightarrow> (string \<rightharpoonup> node) \<Rightarrow> string \<Rightarrow> string option" where
  "resolve 0 ns p = (case ns p of Some (Symlink t) \<Rightarrow> None | _ \<Rightarrow> Some p)"
| "resolve (Suc k) ns p = (case ns p of Some (Symlink t) \<Rightarrow> resolve k ns t | _ \<Rightarrow> Some p)"

definition kernel_stat :: "(string \<rightharpoonup> node) \<Rightarrow> string \<Rightarrow> node option" where
  "kernel_stat ns p = (case resolve 40 ns p of None \<Rightarrow> None | Some q \<Rightarrow> ns q)"

text \<open>
  \<^verbatim>\<open>os.stat\<close>, with \<open>None\<close> for its \<^verbatim>\<open>OSError\<close>. It is taken to fail only when nothing
  is there (or the chain of links is too long).
\<close>

definition os_stat :: "world \<Rightarrow> string \<Rightarrow> node option \<times> world" where
  "os_stat w p = (kernel_stat (nodes w) p, log_call (Stat p) w)"

text \<open>
  \<^verbatim>\<open>os.path.isdir\<close> and \<^verbatim>\<open>os.path.exists\<close> call \<^verbatim>\<open>os.stat\<close>, which follows symbolic
  links, and answer \<^verbatim>\<open>False\<close> when it raises.
\<close>

definition os_path_isdir :: "world \<Rightarrow> string \<Rightarrow> bool \<times> world" where
  "os_path_isdir w p =
     (let (st, w1) = os_stat w p
      in ((case st of Some (Dir perm) \<Rightarrow> True | _ \<Rightarrow> False), w1))"

definition os_path_exists :: "world \<Rightarrow> string \<Rightarrow> bool \<times> world" where
  "os_path_exists w p =
     (let (st, w1) = os_stat w p
      in ((case st of Some n \<Rightarrow> True | None \<Rightarrow> False), w1))"

text \<open>
  \<^verbatim>\<open>open(path, 'w')\<close>: follows symbolic links, truncates a regular file that is there
  (keeping its permission bits) and otherwise creates one with the bits \<^verbatim>\<open>0o666\<close> less
  the umask, provided its directory exists. The handle returned is the path reached.
\<close>

definition os_open_w :: "world \<Rightarrow> string \<Rightarrow> (exn + string) \<times> world" where
  "os_open_w w p =
     (let w1 = log_call (Open_w p) w
      in case refuses w (Open_w p) of
           Some e \<Rightarrow> (Inl e, w1)
         | None \<Rightarrow>
             (case resolve 40 (nodes w) p of
                None \<Rightarrow> (Inl (os_error 40 ''Too many levels of symbolic links'' p), w1)
              | Some q \<Rightarrow>
                  (case nodes w q of
                     Some (File old perm) \<Rightarrow> (Inr q, w1\<lparr>nodes := (nodes w)(q \<mapsto> File [] perm)\<rparr>)
                   | Some (Dir perm) \<Rightarrow> (Inl (os_error 21 ''Is a directory'' p), w1)
                   | Some (Symlink t) \<Rightarrow>
                       (Inl (os_error 40 ''Too many levels of symbolic links'' p), w1)
                   | None \<Rightarrow>
                       if os_path_dirname q \<noteq> [] \<and>
                          (case kernel_stat (nodes w) (os_path_dirname q) of
                             Some (Dir perm) \<Rightarrow> False | _ \<Rightarrow> True)
                       then (Inl (os_error 2 ''No such file or directory'' p), w1)
                       else (Inr q, w1\<lparr>nodes := (nodes w)(q \<mapsto> File [] (438 AND NOT (umask w)))\<rparr>))))"

text \<open>
  \<^verbatim>\<open>f.write(content)\<close> and the close at the end of the \<^verbatim>\<open>with\<close> block, on the handle
  \<open>q\<close>. When the platform refuses, the first \<open>flushed\<close> characters have reached the file.
\<close>

definition file_write :: "world \<Rightarrow> string \<Rightarrow> string \<Rightarrow> (exn + unit) \<times> world" where
  "file_write w q content =
     (let w1 = log_call (Write q content) w;
          put = (\<lambda>text. case nodes w q of
                          Some (File old perm) \<Rightarrow> w1\<lparr>nodes := (nodes w)(q \<mapsto> File text perm)\<rparr>
                        | _ \<Rightarrow> w1)
      in case refuses w (Write q content) of
           Some e \<Rightarrow> (Inl e, put (take (flushed w) content))
         | None \<Rightarrow> (Inr (), put content))"

text \<open>
  \<^verbatim>\<open>os.chmod(path, n)\<close>: \<open>n\<close> must fit a C \<^verbatim>\<open>int\<close>, else \<^verbatim>\<open>OverflowError\<close> before any
  system call. The kernel follows symbolic links and keeps the low twelve bits of \<open>n\<close>.
\<close>

definition os_chmod :: "world \<Rightarrow> string \<Rightarrow> int \<Rightarrow> (exn + unit) \<times> world" where
  "os_chmod w p n =
     (if n < - (2 ^ 31) \<or> 2 ^ 31 \<le> n then
        (Inl (OverflowError ''Python int too large to convert to C int''), w)
      else
        (let w1 = log_call (Chmod p n) w
         in case refuses w (Chmod p n) of
              Some e \<Rightarrow> (Inl e, w1)
            | None \<Rightarrow>
                (case resolve 40 (nodes w) p of
                   None \<Rightarrow> (Inl (os_error 40 ''Too many levels of symbolic links'' p), w1)
                 | Some q \<Rightarrow>
                     (case nodes w q of
                        Some (File text perm) \<Rightarrow>
                          (Inr (), w1\<lparr>nodes := (nodes w)(q \<mapsto> File text (word_of_int n))\<rparr>)
                      | Some (Dir perm) \<Rightarrow>
                          (Inr (), w1\<lparr>nodes := (nodes w)(q \<mapsto> Dir (word_of_int n))\<rparr>)
                      | Some (Symlink t) \<Rightarrow>
                          (Inl (os_error 40 ''Too many levels of symbolic links'' p), w1)
                      | None \<Rightarrow> (Inl (os_error 2 ''No such file or directory'' p), w1)))))"

section \<open>The module\<close>

text \<open>
  A Python \<^verbatim>\<open>dict\<close> with string keys is an association list in insertion order;
  assigning to a key is \<^const>\<open>AList.update\<close>. The module's parameters and its check-mode
  flag come from \<^verbatim>\<open>AnsibleModule\<close>. \<^verbatim>\<open>exit_json\<close> and \<^verbatim>\<open>fail_json\<close> end the process
  with the keyword arguments they were given as the payload (the keys the host adds on
  its own, such as \<^verbatim>\<open>failed\<close> and \<^verbatim>\<open>invocation\<close>, are left out).
\<close>

datatype pyval = Bool bool | Str string

type_synonym dict = "(string \<times> pyval) list"

record ansible_module =
  param_path :: string
  param_content :: string
  param_mode :: string
  check_mode :: bool

datatype outcome = Exit_json dict | Fail_json dict

text \<open>
  \<^verbatim>\<open>
  def write_file(path, content, mode):
      with open(path, 'w') as f:
          f.write(content)
      os.chmod(path, int(mode, 8))
  \<close>
\<close>

definition write_file :: "world \<Rightarrow> string \<Rightarrow> string \<Rightarrow> string \<Rightarrow> (exn + unit) \<times> world" where
  "write_file w path content mode =
     (case os_open_w w path of
        (Inl e, w1) \<Rightarrow> (Inl e, w1)
      | (Inr f, w1) \<Rightarrow>
          (case file_write w1 f content of
             (Inl e, w2) \<Rightarrow> (Inl e, w2)
           | (Inr u, w2) \<Rightarrow>
               (case int8 mode of
                  None \<Rightarrow> (Inl (invalid_literal mode), w2)
                | Some n \<Rightarrow> os_chmod w2 path n)))"

text \<open>The three messages of \<^verbatim>\<open>run_module\<close>, as its f-strings build them.\<close>

definition msg_invalid_mode :: "string \<Rightarrow> string" where
  "msg_invalid_mode mode =
     ''Invalid mode '' @ [CHR 0x27] @ mode @ [CHR 0x27] @ ''. Use octal format like ''
       @ [CHR 0x27] @ ''0644'' @ [CHR 0x27] @ ''.''"

definition msg_parent_missing :: "string \<Rightarrow> string" where
  "msg_parent_missing dirname = ''Parent directory does not exist: '' @ dirname"

definition msg_write_failed :: "string \<Rightarrow> exn \<Rightarrow> string" where
  "msg_write_failed path e =
     ''Failed to create file '' @ [CHR 0x27] @ path @ [CHR 0x27] @ '': '' @ str_exn e"

definition run_module :: "ansible_module \<Rightarrow> world \<Rightarrow> outcome \<times> world" where
  "run_module module w =
     (let result = [(''created'', Bool False), (''path'', Str []), (''content'', Str [])];
          path = param_path module;
          content = param_content module;
          mode = param_mode module
      in case int8 mode of
           None \<Rightarrow> (Fail_json [(''msg'', Str (msg_invalid_mode mode))], w)
         | Some n \<Rightarrow>
             (let result = AList.update ''path'' (Str path) result;
                  result = AList.update ''content'' (Str content) result;
                  dirname = os_path_dirname path;
                  (missing, w1) = (if dirname \<noteq> []
                                   then (let (d, w') = os_path_isdir w dirname in (\<not> d, w'))
                                   else (False, w))
              in if missing then
                   (Fail_json ((''msg'', Str (msg_parent_missing dirname)) # result), w1)
                 else
                   (let (present, w2) = os_path_exists w1 path
                    in if present then
                         (Exit_json (AList.update ''created'' (Bool False) result), w2)
                       else
                         (let result = AList.update ''created'' (Bool True) result
                          in if check_mode module then (Exit_json result, w2)
                             else (case write_file w2 path content mode of
                                     (Inl e, w3) \<Rightarrow>
                                       (Fail_json ((''msg'', Str (msg_write_failed path e)) # result), w3)
                                   | (Inr u, w3) \<Rightarrow> (Exit_json result, w3))))))"

section \<open>Vocabulary for the properties\<close>

text \<open>
  The platform calls the two checks of \<^verbatim>\<open>run_module\<close> make for a path: the parent check
  (skipped when \<^verbatim>\<open>dirname\<close> is empty) and the existence check.
\<close>

definition checks_log :: "string \<Rightarrow> call list" where
  "checks_log p =
     (if os_path_dirname p \<noteq> [] then [Stat (os_path_dirname p)] else []) @ [Stat p]"

definition after_checks :: "world \<Rightarrow> string \<Rightarrow> world" where
  "after_checks w p = w\<lparr>calls := calls w @ checks_log p\<rparr>"

text \<open>The calls that can change the filesystem, and whether a run made one.\<close>

fun writes :: "call \<Rightarrow> bool" where
  "writes (Stat p) = False"
| "writes (Open_w p) = True"
| "writes (Write q text) = True"
| "writes (Chmod p n) = True"

definition wrote :: "world \<Rightarrow> world \<Rightarrow> bool" where
  "wrote w w' = list_ex writes (drop (length (calls w)) (calls w'))"

text \<open>
  The run gets as far as the write step, check mode aside: the mode parses, the parent
  check passes and \<^verbatim>\<open>os.path.exists\<close> reports nothing at the path.
\<close>

definition reaches_write :: "ansible_module \<Rightarrow> world \<Rightarrow> bool" where
  "reaches_write m w =
     (int8 (param_mode m) \<noteq> None \<and>
      (os_path_dirname (param_path m) = [] \<or>
       fst (os_path_isdir w (os_path_dirname (param_path m)))) \<and>
      \<not> fst (os_path_exists w (param_path m)))"

text \<open>The payload the run hands to the host, whichever way it ends.\<close>

fun payload :: "outcome \<Rightarrow> dict" where
  "payload (Exit_json d) = d"
| "payload (Fail_json d) = d"

text \<open>
  What a reader finds at a path afterwards: the text of the file there and the permission
  bits of the file or directory there, symbolic links followed.
\<close>

definition file_text :: "world \<Rightarrow> string \<Rightarrow> string option" where
  "file_text w p =
     (case kernel_stat (nodes w) p of Some (File text perm) \<Rightarrow> Some text | _ \<Rightarrow> None)"

definition permission_bits :: "world \<Rightarrow> string \<Rightarrow> int option" where
  "permission_bits w p =
     (case kernel_stat (nodes w) p of
        Some (File text perm) \<Rightarrow> Some (uint perm)
      | Some (Dir perm) \<Rightarrow> Some (uint perm)
      | _ \<Rightarrow> None)"

text \<open>The host running the module several times in a row, each run on the world the last left.\<close>

fun run_many :: "ansible_module list \<Rightarrow> world \<Rightarrow> outcome list \<times> world" where
  "run_many [] w = ([], w)"
| "run_many (m # ms) w =
     (let (out, w1) = run_module m w;
          (outs, w2) = run_many ms w1
      in (out # outs, w2))"

text \<open>
  Worlds for the examples. In all of them \<^verbatim>\<open>/tmp\<close> and \<^verbatim>\<open>/tmp/test1\<close> are directories and
  the umask is \<^verbatim>\<open>0o022\<close>. \<open>fresh_world\<close> has nothing else and refuses nothing;
  \<open>link_world\<close> has in addition a symbolic link \<^verbatim>\<open>/tmp/test1/link\<close> to a path where
  nothing is; \<open>denied_world\<close> refuses to open \<^verbatim>\<open>/tmp/test1/placeholder.txt\<close> for writing;
  \<open>orphan_world\<close> has an entry at \<^verbatim>\<open>/gone/f\<close> and no directory \<^verbatim>\<open>/gone\<close>;
  \<open>settled_world\<close> has a file \<^verbatim>\<open>/tmp/test1/placeholder.txt\<close> with the text \<^verbatim>\<open>old\<close> and the
  permission bits \<^verbatim>\<open>0o600\<close>.
\<close>

definition fresh_world :: world where
  "fresh_world =
     \<lparr>nodes = [''/tmp'' \<mapsto> Dir 1023, ''/tmp/test1'' \<mapsto> Dir 493],
      umask = 18, refuses = (\<lambda>c. None), flushed = 0, calls = []\<rparr>"

definition link_world :: world where
  "link_world =
     fresh_world\<lparr>nodes := (nodes fresh_world)(''/tmp/test1/link'' \<mapsto> Symlink ''/tmp/test1/target'')\<rparr>"

definition denied_world :: world where
  "denied_world =
     fresh_world\<lparr>refuses := (\<lambda>c. if c = Open_w ''/tmp/test1/placeholder.txt''
                                    then Some (os_error 13 ''Permission denied'' ''/tmp/test1/placeholder.txt'')
                                    else None)\<rparr>"

definition orphan_world :: world where
  "orphan_world = fresh_world\<lparr>nodes := [''/gone/f'' \<mapsto> File ''old'' 420]\<rparr>"

definition settled_world :: world where
  "settled_world =
     fresh_world\<lparr>nodes := (nodes fresh_world)(''/tmp/test1/placeholder.txt'' \<mapsto> File ''old'' 384)\<rparr>"

definition request :: "string \<Rightarrow> string \<Rightarrow> string \<Rightarrow> bool \<Rightarrow> ansible_module" where
  "request p c m chk = \<lparr>param_path = p, param_content = c, param_mode = m, check_mode = chk\<rparr>"

section \<open>Auxiliary facts\<close>

lemma log_call_simps [simp]:
  "nodes (log_call c w) = nodes w" "umask (log_call c w) = umask w"
  "refuses (log_call c w) = refuses w" "flushed (log_call c w) = flushed w"
  "calls (log_call c w) = calls w @ [c]"
  by (simp_all add: log_call_def)

lemma isdir_simps [simp]:
  "snd (os_path_isdir w p) = log_call (Stat p) w"
  "fst (os_path_isdir (log_call c w) p) = fst (os_path_isdir w p)"
  by (simp_all add: os_path_isdir_def os_stat_def)

lemma exists_simps [simp]:
  "snd (os_path_exists w p) = log_call (Stat p) w"
  "fst (os_path_exists (log_call c w) p) = fst (os_path_exists w p)"
  by (simp_all add: os_path_exists_def os_stat_def)


lemma after_checks_eq:
  "after_checks w p =
     (if os_path_dirname p \<noteq> [] then log_call (Stat p) (log_call (Stat (os_path_dirname p)) w)
      else log_call (Stat p) w)"
  by (simp add: after_checks_def checks_log_def log_call_def)

lemma run_module_eq:
  "run_module m w =
     (case int8 (param_mode m) of
        None \<Rightarrow> (Fail_json [(''msg'', Str (msg_invalid_mode (param_mode m)))], w)
      | Some n \<Rightarrow>
          if os_path_dirname (param_path m) \<noteq> [] \<and> \<not> fst (os_path_isdir w (os_path_dirname (param_path m)))
          then (Fail_json [(''msg'', Str (msg_parent_missing (os_path_dirname (param_path m)))),
                           (''created'', Bool False), (''path'', Str (param_path m)),
                           (''content'', Str (param_content m))],
                log_call (Stat (os_path_dirname (param_path m))) w)
          else if fst (os_path_exists w (param_path m))
          then (Exit_json [(''created'', Bool False), (''path'', Str (param_path m)),
                           (''content'', Str (param_content m))], after_checks w (param_path m))
          else if check_mode m
          then (Exit_json [(''created'', Bool True), (''path'', Str (param_path m)),
                           (''content'', Str (param_content m))], after_checks w (param_path m))
          else (case write_file (after_checks w (param_path m)) (param_path m) (param_content m) (param_mode m) of
                  (Inl e, w3) \<Rightarrow>
                    (Fail_json [(''msg'', Str (msg_write_failed (param_path m) e)),
                                (''created'', Bool True), (''path'', Str (param_path m)),
                                (''content'', Str (param_content m))], w3)
                | (Inr u, w3) \<Rightarrow>
                    (Exit_json [(''created'', Bool True), (''path'', Str (param_path m)),
                                (''content'', Str (param_content m))], w3)))"
  by (simp add: run_module_def Let_def split_beta after_checks_eq
           split: option.split sum.split)


lemma resolve_no_link: "(\<And>t. ns p \<noteq> Some (Symlink t)) \<Longrightarrow> resolve k ns p = Some p"
  by (cases k) (auto split: option.splits node.splits)

lemma kernel_stat_no_link: "(\<And>t. ns p \<noteq> Some (Symlink t)) \<Longrightarrow> kernel_stat ns p = ns p"
  by (simp add: kernel_stat_def resolve_no_link)

lemma after_checks_simps [simp]:
  "nodes (after_checks w p) = nodes w" "umask (after_checks w p) = umask w"
  "refuses (after_checks w p) = refuses w" "flushed (after_checks w p) = flushed w"
  "calls (after_checks w p) = calls w @ checks_log p"
  by (simp_all add: after_checks_def)

lemma isdir_kernel:
  "fst (os_path_isdir w d) = (case kernel_stat (nodes w) d of Some (Dir perm) \<Rightarrow> True | _ \<Rightarrow> False)"
  by (simp add: os_path_isdir_def os_stat_def)

lemma exists_kernel: "fst (os_path_exists w p) = (kernel_stat (nodes w) p \<noteq> None)"
  by (simp add: os_path_exists_def os_stat_def split: option.split)

lemma os_open_w_calls: "calls (snd (os_open_w w p)) = calls w @ [Open_w p]"
  by (simp add: os_open_w_def Let_def split: option.split node.split)

lemma file_write_calls: "calls (snd (file_write w q c)) = calls w @ [Write q c]"
  by (simp add: file_write_def Let_def split: option.split node.split)

lemma os_chmod_calls: "\<exists>cs. calls (snd (os_chmod w p n)) = calls w @ cs"
  by (simp add: os_chmod_def Let_def split: option.split node.split)

lemma write_file_calls:
  "\<exists>cs. calls (snd (write_file w p c mode)) = calls w @ Open_w p # cs"
proof (cases "os_open_w w p")
  case (Pair r w1)
  have c1: "calls w1 = calls w @ [Open_w p]"
    using os_open_w_calls [of w p] Pair by simp
  show ?thesis
  proof (cases r)
    case (Inl e)
    then show ?thesis using Pair c1 by (simp add: write_file_def)
  next
    case (Inr f)
    show ?thesis
    proof (cases "file_write w1 f c")
      case (Pair r2 w2)
      have c2: "calls w2 = calls w @ [Open_w p, Write f c]"
        using file_write_calls [of w1 f c] Pair c1 by simp
      show ?thesis
      proof (cases r2)
        case (Inl e)
        then show ?thesis
          using \<open>os_open_w w p = (r, w1)\<close> Inr Pair c2 by (simp add: write_file_def)
      next
        case (Inr u)
        note u = this
        show ?thesis
        proof (cases "int8 mode")
          case None
          then show ?thesis
            using \<open>os_open_w w p = (r, w1)\<close> \<open>r = Inr f\<close> Pair u c2 by (simp add: write_file_def)
        next
          case (Some n)
          obtain cs where "calls (snd (os_chmod w2 p n)) = calls w2 @ cs"
            using os_chmod_calls by blast
          then show ?thesis
            using \<open>os_open_w w p = (r, w1)\<close> \<open>r = Inr f\<close> Pair u c2 Some
            by (simp add: write_file_def)
        qed
      qed
    qed
  qed
qed

lemma os_open_w_fresh:
  assumes "nodes w p = None"
    and "os_path_dirname p = [] \<or> fst (os_path_isdir w (os_path_dirname p))"
    and "refuses w (Open_w p) = None"
  shows "os_open_w w p =
           (Inr p, w\<lparr>nodes := (nodes w)(p \<mapsto> File [] (438 AND NOT (umask w))),
                      calls := calls w @ [Open_w p]\<rparr>)"
proof -
  have r: "resolve 40 (nodes w) p = Some p"
    using assms(1) by (simp add: resolve_no_link)
  have d: "\<not> (os_path_dirname p \<noteq> [] \<and>
              (case kernel_stat (nodes w) (os_path_dirname p) of Some (Dir perm) \<Rightarrow> False | _ \<Rightarrow> True))"
    using assms(2) by (auto simp: isdir_kernel split: option.splits node.splits)
  show ?thesis
    unfolding os_open_w_def Let_def using assms(1,3) r d by (simp add: log_call_def)
qed

lemma file_write_ok:
  assumes "nodes w q = Some (File old perm)" and "refuses w (Write q c) = None"
  shows "file_write w q c =
           (Inr (), w\<lparr>nodes := (nodes w)(q \<mapsto> File c perm), calls := calls w @ [Write q c]\<rparr>)"
  unfolding file_write_def Let_def using assms by (simp add: log_call_def)

lemma os_chmod_file:
  assumes "nodes w p = Some (File text perm)" and "refuses w (Chmod p n) = None"
    and "- (2 ^ 31) \<le> n" and "n < 2 ^ 31"
  shows "os_chmod w p n =
           (Inr (), w\<lparr>nodes := (nodes w)(p \<mapsto> File text (word_of_int n)),
                       calls := calls w @ [Chmod p n]\<rparr>)"
proof -
  have r: "resolve 40 (nodes w) p = Some p"
    using assms(1) by (simp add: resolve_no_link)
  show ?thesis
    unfolding os_chmod_def Let_def using assms r by (simp add: log_call_def)
qed

lemma write_file_ok:
  assumes "int8 mode = Some n" and "- (2 ^ 31) \<le> n" and "n < 2 ^ 31"
    and "nodes w p = None"
    and "os_path_dirname p = [] \<or> fst (os_path_isdir w (os_path_dirname p))"
    and "refuses w (Open_w p) = None" and "refuses w (Write p c) = None"
    and "refuses w (Chmod p n) = None"
  shows "write_file w p c mode =
           (Inr (), w\<lparr>nodes := (nodes w)(p \<mapsto> File c (word_of_int n)),
                       calls := calls w @ [Open_w p, Write p c, Chmod p n]\<rparr>)"
proof -
  let ?w1 = "w\<lparr>nodes := (nodes w)(p \<mapsto> File [] (438 AND NOT (umask w))),
                calls := calls w @ [Open_w p]\<rparr>"
  let ?w2 = "?w1\<lparr>nodes := (nodes ?w1)(p \<mapsto> File c (438 AND NOT (umask w))),
                  calls := calls ?w1 @ [Write p c]\<rparr>"
  have o: "os_open_w w p = (Inr p, ?w1)"
    using assms(4,5,6) by (rule os_open_w_fresh)
  have f: "file_write ?w1 p c = (Inr (), ?w2)"
    by (rule file_write_ok [where old = "[]"]) (simp_all add: assms(7))
  have m: "os_chmod ?w2 p n =
             (Inr (), ?w2\<lparr>nodes := (nodes ?w2)(p \<mapsto> File c (word_of_int n)),
                          calls := calls ?w2 @ [Chmod p n]\<rparr>)"
    by (rule os_chmod_file [where perm = "438 AND NOT (umask w)"])
       (use assms(2,3,8) in simp_all)
  show ?thesis
    using m by (simp add: write_file_def o f assms(1))
qed

lemma checks_keep_answers [simp]:
  "fst (os_path_isdir (after_checks w p) d) = fst (os_path_isdir w d)"
  "fst (os_path_exists (after_checks w p) q) = fst (os_path_exists w q)"
  by (simp_all add: isdir_kernel exists_kernel)

lemma write_file_refused:
  "refuses w (Open_w p) = Some e \<Longrightarrow> write_file w p c mode = (Inl e, log_call (Open_w p) w)"
  by (simp add: write_file_def os_open_w_def Let_def)

lemma write_file_overflow:
  assumes "int8 mode = Some n" and "n < - (2 ^ 31) \<or> 2 ^ 31 \<le> n"
    and "nodes w p = None"
    and "os_path_dirname p = [] \<or> fst (os_path_isdir w (os_path_dirname p))"
    and "refuses w (Open_w p) = None" and "refuses w (Write p c) = None"
  shows "write_file w p c mode =
           (Inl (OverflowError ''Python int too large to convert to C int''),
            w\<lparr>nodes := (nodes w)(p \<mapsto> File c (438 AND NOT (umask w))),
               calls := calls w @ [Open_w p, Write p c]\<rparr>)"
proof -
  let ?w1 = "w\<lparr>nodes := (nodes w)(p \<mapsto> File [] (438 AND NOT (umask w))),
                calls := calls w @ [Open_w p]\<rparr>"
  have o: "os_open_w w p = (Inr p, ?w1)"
    using assms(3,4,5) by (rule os_open_w_fresh)
  have f: "file_write ?w1 p c =
             (Inr (), ?w1\<lparr>nodes := (nodes ?w1)(p \<mapsto> File c (438 AND NOT (umask w))),
                          calls := calls ?w1 @ [Write p c]\<rparr>)"
    by (rule file_write_ok [where old = "[]"]) (simp_all add: assms(6))
  show ?thesis
    using assms(2) by (auto simp: write_file_def o f assms(1) os_chmod_def)
qed

lemma run_module_existing:
  assumes "int8 (param_mode m) \<noteq> None"
    and "os_path_dirname (param_path m) = [] \<or>
         fst (os_path_isdir w (os_path_dirname (param_path m)))"
    and "fst (os_path_exists w (param_path m))"
  shows "run_module m w =
           (Exit_json [(''created'', Bool False), (''path'', Str (param_path m)),
                       (''content'', Str (param_content m))], after_checks w (param_path m))"
  using assms by (auto simp: run_module_eq)

lemma checks_log_no_writes: "\<not> list_ex writes (checks_log p)"
  by (simp add: checks_log_def)

lemma run_many_existing:
  assumes "\<forall>m \<in> set ms. param_path m = p \<and> int8 (param_mode m) \<noteq> None"
    and "os_path_dirname p = [] \<or> fst (os_path_isdir w (os_path_dirname p))"
    and "fst (os_path_exists w p)"
  shows "run_many ms w =
           (map (\<lambda>m. Exit_json [(''created'', Bool False), (''path'', Str p),
                                  (''content'', Str (param_content m))]) ms,
            w\<lparr>calls := calls w @ concat (map (\<lambda>m. checks_log p) ms)\<rparr>)"
  using assms
proof (induction ms arbitrary: w)
  case Nil
  then show ?case by simp
next
  case (Cons m ms)
  have one: "run_module m w =
               (Exit_json [(''created'', Bool False), (''path'', Str p),
                           (''content'', Str (param_content m))], after_checks w p)"
    using run_module_existing [of m w] Cons.prems by simp
  have rest: "run_many ms (after_checks w p) =
                (map (\<lambda>m. Exit_json [(''created'', Bool False), (''path'', Str p),
                                       (''content'', Str (param_content m))]) ms,
                 (after_checks w p)\<lparr>calls := calls (after_checks w p)
                                        @ concat (map (\<lambda>m. checks_log p) ms)\<rparr>)"
    using Cons.prems by (intro Cons.IH) simp_all
  show ?case
    using rest by (simp add: one after_checks_def)
qed

lemma wrote_after_checks: "\<not> wrote w (after_checks w p)"
  by (simp add: wrote_def checks_log_no_writes)


lemma wrote_log_stat: "\<not> wrote w (log_call (Stat d) w)"
  by (simp add: wrote_def)

lemma wrote_refl: "\<not> wrote w w"
  by (simp add: wrote_def)

lemma reaches_write_check_mode [simp]: "reaches_write (m\<lparr>check_mode := b\<rparr>) w = reaches_write m w"
  by (simp add: reaches_write_def)

lemma stops_before_write:
  assumes "\<not> reaches_write m w"
  shows "run_module (m\<lparr>check_mode := b\<rparr>) w = run_module m w"
    and "\<not> wrote w (snd (run_module m w))"
    and "fst (run_module m w) = Exit_json r \<Longrightarrow>
           r = [(''created'', Bool False), (''path'', Str (param_path m)),
                (''content'', Str (param_content m))]"
proof -
  show "run_module (m\<lparr>check_mode := b\<rparr>) w = run_module m w"
    using assms by (auto simp: run_module_eq reaches_write_def split: option.splits)
  show "\<not> wrote w (snd (run_module m w))"
    using assms
    by (auto simp: run_module_eq reaches_write_def wrote_after_checks wrote_log_stat wrote_refl
             split: option.splits)
  show "fst (run_module m w) = Exit_json r \<Longrightarrow>
           r = [(''created'', Bool False), (''path'', Str (param_path m)),
                (''content'', Str (param_content m))]"
    using assms by (auto simp: run_module_eq reaches_write_def split: if_splits option.splits)
qed

lemma at_write_check_mode:
  assumes "reaches_write m w" and "check_mode m"
  shows "run_module m w =
           (Exit_json [(''created'', Bool True), (''path'', Str (param_path m)),
                       (''content'', Str (param_content m))], after_checks w (param_path m))"
  using assms by (auto simp: run_module_eq reaches_write_def)

lemma at_write_run:
  assumes "reaches_write m w" and "\<not> check_mode m"
  shows "run_module m w =
           (case write_file (after_checks w (param_path m)) (param_path m) (param_content m)
                   (param_mode m) of
              (Inl e, w3) \<Rightarrow>
                (Fail_json [(''msg'', Str (msg_write_failed (param_path m) e)),
                            (''created'', Bool True), (''path'', Str (param_path m)),
                            (''content'', Str (param_content m))], w3)
            | (Inr u, w3) \<Rightarrow>
                (Exit_json [(''created'', Bool True), (''path'', Str (param_path m)),
                            (''content'', Str (param_content m))], w3))"
  using assms by (auto simp: run_module_eq reaches_write_def)

lemma at_write_run_world:
  assumes "reaches_write m w" and "\<not> check_mode m"
  shows "snd (run_module m w) =
           snd (write_file (after_checks w (param_path m)) (param_path m) (param_content m)
                  (param_mode m))"
  unfolding at_write_run [OF assms]
  by (cases "write_file (after_checks w (param_path m)) (param_path m) (param_content m)
               (param_mode m)") (simp split: sum.split)


subsection \<open>The example worlds, evaluated\<close>

lemma int8_abc: "int8 ''abc'' = None"
  by code_simp

lemma int8_0644: "int8 ''0644'' = Some 420"
  by code_simp

lemma dirname_placeholder: "os_path_dirname ''/tmp/test1/placeholder.txt'' = ''/tmp/test1''"
  by code_simp

lemma fresh_world_simps:
  "nodes fresh_world ''/tmp/test1'' = Some (Dir 493)"
  "nodes fresh_world ''/tmp/test1/placeholder.txt'' = None"
  "refuses fresh_world c = None"
  by (simp_all add: fresh_world_def)

lemma fresh_world_parent: "fst (os_path_isdir fresh_world ''/tmp/test1'')"
  by (simp add: isdir_kernel kernel_stat_no_link fresh_world_simps)

lemma fresh_world_absent: "\<not> fst (os_path_exists fresh_world ''/tmp/test1/placeholder.txt'')"
  by (simp add: exists_kernel kernel_stat_no_link fresh_world_simps)

lemma int8_minus_644: "int8 ''-644'' = Some (- 420)"
  by code_simp

lemma denied_world_simps:
  "nodes denied_world = nodes fresh_world"
  "refuses denied_world (Open_w ''/tmp/test1/placeholder.txt'') =
     Some (os_error 13 ''Permission denied'' ''/tmp/test1/placeholder.txt'')"
  by (simp_all add: denied_world_def)

lemma denied_world_parent: "fst (os_path_isdir denied_world ''/tmp/test1'')"
  by (simp add: isdir_kernel kernel_stat_no_link denied_world_simps fresh_world_simps)

lemma denied_world_absent: "\<not> fst (os_path_exists denied_world ''/tmp/test1/placeholder.txt'')"
  by (simp add: exists_kernel kernel_stat_no_link denied_world_simps fresh_world_simps)

lemma dirname_gone: "os_path_dirname ''/gone/f'' = ''/gone''"
  by code_simp

lemma orphan_world_simps:
  "nodes orphan_world ''/gone/f'' = Some (File ''old'' 420)"
  "nodes orphan_world ''/gone'' = None"
  by (simp_all add: orphan_world_def)

lemma orphan_world_parent: "\<not> fst (os_path_isdir orphan_world ''/gone'')"
  by (simp add: isdir_kernel kernel_stat_no_link orphan_world_simps)

lemma int8_too_large: "int8 ''20000000000'' = Some 2147483648"
  by (simp add: int8_def skip_sign_def skip_prefix_def py_isspace_def octal_digit_def)

lemma settled_world_simps:
  "nodes settled_world ''/tmp/test1'' = Some (Dir 493)"
  "nodes settled_world ''/tmp/test1/placeholder.txt'' = Some (File ''old'' 384)"
  by (simp_all add: settled_world_def fresh_world_def)

lemma settled_world_parent: "fst (os_path_isdir settled_world ''/tmp/test1'')"
  by (simp add: isdir_kernel kernel_stat_no_link settled_world_simps)

lemma settled_world_present: "fst (os_path_exists settled_world ''/tmp/test1/placeholder.txt'')"
  by (simp add: exists_kernel kernel_stat_no_link settled_world_simps)

lemma int8_0600: "int8 ''0600'' = Some 384"
  by code_simp

lemma int8_spaced: "int8 '' 644 '' = Some 420"
  by code_simp

lemma int8_prefixed: "int8 ''0o644'' = Some 420"
  by code_simp


lemma denied_world_reaches_write:
  "reaches_write (request ''/tmp/test1/placeholder.txt'' c ''0644'' b) denied_world"
  by (simp add: reaches_write_def request_def int8_0644 dirname_placeholder denied_world_parent
        denied_world_absent)

lemma request_simps:
  "param_path (request p c mode b) = p" "param_content (request p c mode b) = c"
  "param_mode (request p c mode b) = mode" "check_mode (request p c mode b) = b"
  by (simp_all add: request_def)

lemma request_check_mode: "(request p c mode b)\<lparr>check_mode := b'\<rparr> = request p c mode b'"
  by (simp add: request_def)

section \<open>Properties of the module\<close>

text \<open>
  Claim C4. A mode string that \<^verbatim>\<open>int(mode, 8)\<close> rejects makes the run fail with the
  ``Invalid mode'' message, which quotes the mode string as given; the world comes back as
  it was, log of platform calls included: no existence check, no parent check, no write.
\<close>

theorem invalid_mode_fails_before_any_access:
  assumes "int8 (param_mode m) = None"
  shows "run_module m w =
           (Fail_json [(''msg'', Str (''Invalid mode '' @ [CHR 0x27] @ param_mode m @ [CHR 0x27]
                                      @ ''. Use octal format like '' @ [CHR 0x27] @ ''0644''
                                      @ [CHR 0x27] @ ''.''))], w)"
  using assms by (simp add: run_module_eq msg_invalid_mode_def)

theorem invalid_mode_fails_before_any_access_witness:
  "int8 ''abc'' = None \<and>
   run_module (request ''/tmp/test1/placeholder.txt'' ''hello'' ''abc'' False) fresh_world =
     (Fail_json [(''msg'', Str (''Invalid mode '' @ [CHR 0x27] @ ''abc'' @ [CHR 0x27]
                                @ ''. Use octal format like '' @ [CHR 0x27] @ ''0644''
                                @ [CHR 0x27] @ ''.''))], fresh_world)"
  using invalid_mode_fails_before_any_access
          [of "request ''/tmp/test1/placeholder.txt'' ''hello'' ''abc'' False" fresh_world]
        int8_abc
  by (simp add: request_def)

text \<open>
  Claim C3. With a mode that parses, a parent check that passes and nothing that
  \<^verbatim>\<open>os.path.exists\<close> reports at the path, a run in check mode exits successfully with
  \<^verbatim>\<open>created = True\<close> and the inputs echoed; the world is unchanged but for the log, which
  has gained the calls of the two checks only, so no file appears at the path.
\<close>

theorem check_mode_creates_nothing:
  assumes "int8 (param_mode m) \<noteq> None"
    and "os_path_dirname (param_path m) = [] \<or>
         fst (os_path_isdir w (os_path_dirname (param_path m)))"
    and "\<not> fst (os_path_exists w (param_path m))"
    and "check_mode m"
  shows "run_module m w =
           (Exit_json [(''created'', Bool True), (''path'', Str (param_path m)),
                       (''content'', Str (param_content m))],
            w\<lparr>calls := calls w @ checks_log (param_path m)\<rparr>) \<and>
         \<not> wrote w (snd (run_module m w))"
  using assms
  by (auto simp: run_module_eq after_checks_def wrote_def checks_log_def)

theorem check_mode_creates_nothing_witness:
  "int8 ''0644'' \<noteq> None \<and>
   fst (os_path_isdir fresh_world (os_path_dirname ''/tmp/test1/placeholder.txt'')) \<and>
   \<not> fst (os_path_exists fresh_world ''/tmp/test1/placeholder.txt'') \<and>
   run_module (request ''/tmp/test1/placeholder.txt'' ''hello'' ''0644'' True) fresh_world =
     (Exit_json [(''created'', Bool True), (''path'', Str ''/tmp/test1/placeholder.txt''),
                 (''content'', Str ''hello'')],
      fresh_world\<lparr>calls := [Stat ''/tmp/test1'', Stat ''/tmp/test1/placeholder.txt'']\<rparr>)"
  using check_mode_creates_nothing
          [of "request ''/tmp/test1/placeholder.txt'' ''hello'' ''0644'' True" fresh_world]
        int8_0644 fresh_world_parent fresh_world_absent
  by (simp add: request_def dirname_placeholder checks_log_def fresh_world_def)

text \<open>
  Claim C1, as stated, fails twice. The platform may refuse the write, and the run then
  fails although the path is absent, its parent exists and the mode parses; and the
  permission bits of the created file are the low twelve bits of the parsed mode, which
  differ from it for a mode such as \<^verbatim>\<open>-644\<close> (\<^verbatim>\<open>0o7134\<close> against \<open>-420\<close>).
\<close>

theorem creation_counterexample:
  "int8 ''0644'' = Some 420 \<and>
   nodes denied_world ''/tmp/test1/placeholder.txt'' = None \<and>
   fst (os_path_isdir denied_world (os_path_dirname ''/tmp/test1/placeholder.txt'')) \<and>
   fst (run_module (request ''/tmp/test1/placeholder.txt'' ''hello'' ''0644'' False) denied_world) =
     Fail_json [(''msg'', Str (msg_write_failed ''/tmp/test1/placeholder.txt''
                                 (os_error 13 ''Permission denied'' ''/tmp/test1/placeholder.txt''))),
                (''created'', Bool True), (''path'', Str ''/tmp/test1/placeholder.txt''),
                (''content'', Str ''hello'')] \<and>
   int8 ''-644'' = Some (- 420) \<and>
   nodes fresh_world ''/tmp/test1/placeholder.txt'' = None \<and>
   fst (os_path_isdir fresh_world (os_path_dirname ''/tmp/test1/placeholder.txt'')) \<and>
   permission_bits
     (snd (run_module (request ''/tmp/test1/placeholder.txt'' ''hello'' ''-644'' False) fresh_world))
     ''/tmp/test1/placeholder.txt'' = Some 3676"
proof -
  let ?p = "''/tmp/test1/placeholder.txt''"
  have a: "fst (run_module (request ?p ''hello'' ''0644'' False) denied_world) =
     Fail_json [(''msg'', Str (msg_write_failed ?p (os_error 13 ''Permission denied'' ?p))),
                (''created'', Bool True), (''path'', Str ?p), (''content'', Str ''hello'')]"
    by (simp add: run_module_eq request_def int8_0644 dirname_placeholder denied_world_parent
          denied_world_absent write_file_refused denied_world_simps)
  have w: "write_file (after_checks fresh_world ?p) ?p ''hello'' ''-644'' =
             (Inr (), (after_checks fresh_world ?p)
                \<lparr>nodes := (nodes (after_checks fresh_world ?p))(?p \<mapsto> File ''hello'' (word_of_int (- 420))),
                 calls := calls (after_checks fresh_world ?p) @ [Open_w ?p, Write ?p ''hello'', Chmod ?p (- 420)]\<rparr>)"
    by (rule write_file_ok)
       (simp_all add: int8_minus_644 fresh_world_simps dirname_placeholder fresh_world_parent)
  have b: "permission_bits (snd (run_module (request ?p ''hello'' ''-644'' False) fresh_world)) ?p
             = Some 3676"
    by (simp add: run_module_eq request_def int8_minus_644 dirname_placeholder fresh_world_parent
          fresh_world_absent w permission_bits_def kernel_stat_no_link)
  show ?thesis
    using a b
    by (simp add: int8_0644 int8_minus_644 dirname_placeholder denied_world_parent fresh_world_parent
          denied_world_simps fresh_world_simps)
qed

text \<open>
  Claim C1, amended. When nothing is at the path, the parent check passes, the mode parses
  to a value that fits a C \<^verbatim>\<open>int\<close>, check mode is unset and the platform refuses neither
  the opening, nor the writing, nor the permission-setting, the run exits successfully with
  \<^verbatim>\<open>created = True\<close>; afterwards the file at the path holds exactly the content, its
  permission bits are the parsed mode modulo \<^verbatim>\<open>0o10000\<close> (the parsed mode itself when it
  lies between 0 and \<^verbatim>\<open>0o7777\<close>), and no other path has changed.
\<close>

theorem creates_file_with_content_and_mode:
  assumes "int8 (param_mode m) = Some n" and "- (2 ^ 31) \<le> n" and "n < 2 ^ 31"
    and "os_path_dirname (param_path m) = [] \<or>
         fst (os_path_isdir w (os_path_dirname (param_path m)))"
    and "nodes w (param_path m) = None"
    and "\<not> check_mode m"
    and "refuses w (Open_w (param_path m)) = None"
    and "refuses w (Write (param_path m) (param_content m)) = None"
    and "refuses w (Chmod (param_path m) n) = None"
  shows "fst (run_module m w) =
           Exit_json [(''created'', Bool True), (''path'', Str (param_path m)),
                      (''content'', Str (param_content m))] \<and>
         file_text (snd (run_module m w)) (param_path m) = Some (param_content m) \<and>
         permission_bits (snd (run_module m w)) (param_path m) = Some (n mod 4096) \<and>
         (\<forall>q. q \<noteq> param_path m \<longrightarrow> nodes (snd (run_module m w)) q = nodes w q)"
proof -
  let ?p = "param_path m"
  let ?w = "after_checks w ?p"
  have ex: "\<not> fst (os_path_exists w ?p)"
    using assms(5) by (simp add: exists_kernel kernel_stat_no_link)
  have par: "os_path_dirname ?p = [] \<or> fst (os_path_isdir ?w (os_path_dirname ?p))"
    using assms(4) by simp
  have wf: "write_file ?w ?p (param_content m) (param_mode m) =
              (Inr (), ?w\<lparr>nodes := (nodes ?w)(?p \<mapsto> File (param_content m) (word_of_int n)),
                           calls := calls ?w @ [Open_w ?p, Write ?p (param_content m), Chmod ?p n]\<rparr>)"
    by (rule write_file_ok) (use assms par in simp_all)
  have run: "run_module m w =
               (Exit_json [(''created'', Bool True), (''path'', Str ?p),
                           (''content'', Str (param_content m))],
                ?w\<lparr>nodes := (nodes ?w)(?p \<mapsto> File (param_content m) (word_of_int n)),
                    calls := calls ?w @ [Open_w ?p, Write ?p (param_content m), Chmod ?p n]\<rparr>)"
    using assms(1,4,6) ex by (auto simp: run_module_eq wf)
  show ?thesis
    by (simp add: run file_text_def permission_bits_def kernel_stat_no_link uint_word_of_int)
qed

theorem creates_file_with_content_and_mode_witness:
  "int8 ''0644'' = Some 420 \<and> - (2 ^ 31) \<le> (420 :: int) \<and> (420 :: int) < 2 ^ 31 \<and>
   fst (os_path_isdir fresh_world (os_path_dirname ''/tmp/test1/placeholder.txt'')) \<and>
   nodes fresh_world ''/tmp/test1/placeholder.txt'' = None \<and>
   fst (run_module (request ''/tmp/test1/placeholder.txt'' ''hello'' ''0644'' False) fresh_world) =
     Exit_json [(''created'', Bool True), (''path'', Str ''/tmp/test1/placeholder.txt''),
                (''content'', Str ''hello'')] \<and>
   file_text (snd (run_module (request ''/tmp/test1/placeholder.txt'' ''hello'' ''0644'' False)
                    fresh_world)) ''/tmp/test1/placeholder.txt'' = Some ''hello'' \<and>
   permission_bits (snd (run_module (request ''/tmp/test1/placeholder.txt'' ''hello'' ''0644'' False)
                          fresh_world)) ''/tmp/test1/placeholder.txt'' = Some 420"
  using creates_file_with_content_and_mode
          [of "request ''/tmp/test1/placeholder.txt'' ''hello'' ''0644'' False" 420 fresh_world]
        int8_0644 fresh_world_parent
  by (simp add: request_def dirname_placeholder fresh_world_simps)

text \<open>
  Claim C5, as stated, fails when the mode string does not parse: the mode is validated
  first, so a path whose parent directory is missing then fails with the ``Invalid mode''
  message instead.
\<close>

theorem missing_parent_counterexample:
  "os_path_dirname ''/gone/f'' = ''/gone'' \<and>
   \<not> fst (os_path_isdir orphan_world ''/gone'') \<and>
   run_module (request ''/gone/f'' ''hello'' ''abc'' False) orphan_world =
     (Fail_json [(''msg'', Str (msg_invalid_mode ''abc''))], orphan_world)"
  by (simp add: dirname_gone orphan_world_parent run_module_eq request_def int8_abc)

text \<open>
  Claim C5, amended. With a mode that parses, a path whose \<^verbatim>\<open>dirname\<close> is not empty and not
  an existing directory makes the run fail with the ``Parent directory does not exist''
  message, which ends in the computed parent path. The only platform call made is the
  \<^verbatim>\<open>stat\<close> of the parent: the path itself is never looked at, so the failure is the same
  whether or not something is there.
\<close>

theorem missing_parent_fails_before_existence_check:
  assumes "int8 (param_mode m) \<noteq> None"
    and "os_path_dirname (param_path m) \<noteq> []"
    and "\<not> fst (os_path_isdir w (os_path_dirname (param_path m)))"
  shows "run_module m w =
           (Fail_json [(''msg'', Str (''Parent directory does not exist: ''
                                      @ os_path_dirname (param_path m))),
                       (''created'', Bool False), (''path'', Str (param_path m)),
                       (''content'', Str (param_content m))],
            w\<lparr>calls := calls w @ [Stat (os_path_dirname (param_path m))]\<rparr>)"
  using assms by (auto simp: run_module_eq msg_parent_missing_def log_call_def)

theorem missing_parent_fails_before_existence_check_witness:
  "int8 ''0644'' \<noteq> None \<and> os_path_dirname ''/gone/f'' \<noteq> [] \<and>
   \<not> fst (os_path_isdir orphan_world (os_path_dirname ''/gone/f'')) \<and>
   nodes orphan_world ''/gone/f'' = Some (File ''old'' 420) \<and>
   run_module (request ''/gone/f'' ''hello'' ''0644'' False) orphan_world =
     (Fail_json [(''msg'', Str ''Parent directory does not exist: /gone''),
                 (''created'', Bool False), (''path'', Str ''/gone/f''),
                 (''content'', Str ''hello'')],
      orphan_world\<lparr>calls := calls orphan_world @ [Stat ''/gone'']\<rparr>)"
  using missing_parent_fails_before_existence_check
          [of "request ''/gone/f'' ''hello'' ''0644'' False" orphan_world]
        int8_0644 orphan_world_parent
  by (simp add: request_def dirname_gone orphan_world_simps)

text \<open>
  Claim C6. When the run reaches the write (the mode parses, the parent check passes,
  \<^verbatim>\<open>os.path.exists\<close> reports nothing, check mode is unset) and \<^verbatim>\<open>write_file\<close> raises,
  be it in the opening, the writing or the permission-setting, the run ends in
  \<^verbatim>\<open>fail_json\<close>, not \<^verbatim>\<open>exit_json\<close>: the message holds the path and the text of the
  exception, and the payload holds \<^verbatim>\<open>created = True\<close> with the path and the content.
\<close>

theorem write_error_is_reported_as_failure:
  assumes "int8 (param_mode m) \<noteq> None"
    and "os_path_dirname (param_path m) = [] \<or>
         fst (os_path_isdir w (os_path_dirname (param_path m)))"
    and "\<not> fst (os_path_exists w (param_path m))"
    and "\<not> check_mode m"
    and "write_file (after_checks w (param_path m)) (param_path m) (param_content m)
           (param_mode m) = (Inl e, w')"
  shows "run_module m w =
           (Fail_json [(''msg'', Str (''Failed to create file '' @ [CHR 0x27] @ param_path m
                                      @ [CHR 0x27] @ '': '' @ str_exn e)),
                       (''created'', Bool True), (''path'', Str (param_path m)),
                       (''content'', Str (param_content m))], w')"
  using assms by (auto simp: run_module_eq msg_write_failed_def)


theorem write_error_is_reported_as_failure_witness:
  "int8 ''20000000000'' \<noteq> None \<and>
   fst (os_path_isdir fresh_world (os_path_dirname ''/tmp/test1/placeholder.txt'')) \<and>
   \<not> fst (os_path_exists fresh_world ''/tmp/test1/placeholder.txt'') \<and>
   fst (write_file (after_checks fresh_world ''/tmp/test1/placeholder.txt'')
          ''/tmp/test1/placeholder.txt'' ''hello'' ''20000000000'') =
     Inl (OverflowError ''Python int too large to convert to C int'') \<and>
   fst (run_module (request ''/tmp/test1/placeholder.txt'' ''hello'' ''20000000000'' False)
          fresh_world) =
     Fail_json [(''msg'', Str (''Failed to create file '' @ [CHR 0x27]
                               @ ''/tmp/test1/placeholder.txt'' @ [CHR 0x27]
                               @ '': Python int too large to convert to C int'')),
                (''created'', Bool True), (''path'', Str ''/tmp/test1/placeholder.txt''),
                (''content'', Str ''hello'')] \<and>
   int8 ''0644'' \<noteq> None \<and>
   fst (os_path_isdir denied_world (os_path_dirname ''/tmp/test1/placeholder.txt'')) \<and>
   \<not> fst (os_path_exists denied_world ''/tmp/test1/placeholder.txt'') \<and>
   fst (write_file (after_checks denied_world ''/tmp/test1/placeholder.txt'')
          ''/tmp/test1/placeholder.txt'' ''hello'' ''0644'') =
     Inl (os_error 13 ''Permission denied'' ''/tmp/test1/placeholder.txt'') \<and>
   fst (run_module (request ''/tmp/test1/placeholder.txt'' ''hello'' ''0644'' False)
          denied_world) =
     Fail_json [(''msg'', Str (''Failed to create file '' @ [CHR 0x27]
                               @ ''/tmp/test1/placeholder.txt'' @ [CHR 0x27] @ '': ''
                               @ str_exn (os_error 13 ''Permission denied''
                                            ''/tmp/test1/placeholder.txt''))),
                (''created'', Bool True), (''path'', Str ''/tmp/test1/placeholder.txt''),
                (''content'', Str ''hello'')]"
proof -
  let ?p = "''/tmp/test1/placeholder.txt''"
  let ?big = "request ?p ''hello'' ''20000000000'' False"
  let ?ok = "request ?p ''hello'' ''0644'' False"
  have w1: "fst (write_file (after_checks fresh_world ?p) ?p ''hello'' ''20000000000'') =
              Inl (OverflowError ''Python int too large to convert to C int'')"
    by (subst write_file_overflow [where n = 2147483648])
       (simp_all add: int8_too_large fresh_world_simps dirname_placeholder fresh_world_parent)
  have w2: "fst (write_file (after_checks denied_world ?p) ?p ''hello'' ''0644'') =
              Inl (os_error 13 ''Permission denied'' ?p)"
    by (simp add: write_file_refused denied_world_simps)
  have r1: "run_module ?big fresh_world =
              (Fail_json [(''msg'', Str (''Failed to create file '' @ [CHR 0x27] @ ?p @ [CHR 0x27]
                             @ '': '' @ str_exn (OverflowError ''Python int too large to convert to C int''))),
                          (''created'', Bool True), (''path'', Str ?p), (''content'', Str ''hello'')],
               snd (write_file (after_checks fresh_world ?p) ?p ''hello'' ''20000000000''))"
    using write_error_is_reported_as_failure
            [of ?big fresh_world "OverflowError ''Python int too large to convert to C int''"
                "snd (write_file (after_checks fresh_world ?p) ?p ''hello'' ''20000000000'')"]
          w1 fresh_world_parent fresh_world_absent
    by (simp add: request_def int8_too_large dirname_placeholder prod_eq_iff)
  have r2: "run_module ?ok denied_world =
              (Fail_json [(''msg'', Str (''Failed to create file '' @ [CHR 0x27] @ ?p @ [CHR 0x27]
                             @ '': '' @ str_exn (os_error 13 ''Permission denied'' ?p))),
                          (''created'', Bool True), (''path'', Str ?p), (''content'', Str ''hello'')],
               snd (write_file (after_checks denied_world ?p) ?p ''hello'' ''0644''))"
    using write_error_is_reported_as_failure
            [of ?ok denied_world "os_error 13 ''Permission denied'' ?p"
                "snd (write_file (after_checks denied_world ?p) ?p ''hello'' ''0644'')"]
          w2 denied_world_parent denied_world_absent
    by (simp add: request_def int8_0644 dirname_placeholder prod_eq_iff)
  show ?thesis
    using w1 w2 fresh_world_parent fresh_world_absent denied_world_parent denied_world_absent
    by (simp add: r1 r2 int8_too_large int8_0644 dirname_placeholder)
qed

text \<open>
  Claim C7 holds for two of the three failures and not for the third. The failures for a
  missing parent directory and for a failed write pass \<^verbatim>\<open>**result\<close> to \<^verbatim>\<open>fail_json\<close>, with
  the path and the content in it (the theorems of claims C5 and C6 show the payloads); the
  failure for an invalid mode passes the message alone, although the module documents
  \<^verbatim>\<open>path\<close> and \<^verbatim>\<open>content\<close> as returned always. At the input below the payload has the
  message, which quotes the mode string, and neither a path nor a content.
\<close>

theorem invalid_mode_payload_lacks_path_and_content:
  "payload (fst (run_module (request ''/tmp/test1/placeholder.txt'' ''hello'' ''abc'' False)
                   fresh_world)) =
     [(''msg'', Str (''Invalid mode '' @ [CHR 0x27] @ ''abc'' @ [CHR 0x27]
                     @ ''. Use octal format like '' @ [CHR 0x27] @ ''0644'' @ [CHR 0x27] @ ''.''))] \<and>
   map_of (payload (fst (run_module (request ''/tmp/test1/placeholder.txt'' ''hello'' ''abc'' False)
                           fresh_world))) ''path'' = None \<and>
   map_of (payload (fst (run_module (request ''/tmp/test1/placeholder.txt'' ''hello'' ''abc'' False)
                           fresh_world))) ''content'' = None"
  by (simp add: run_module_eq request_def int8_abc msg_invalid_mode_def)

text \<open>
  Claim C2, as stated, fails for a symbolic link that leads nowhere: an entry exists at the
  path, but \<^verbatim>\<open>os.path.exists\<close> follows the link and reports nothing, so the run goes on to
  the write, creates the file the link points to and reports \<^verbatim>\<open>created = True\<close>.
\<close>

theorem existing_entry_counterexample:
  "nodes link_world ''/tmp/test1/link'' = Some (Symlink ''/tmp/test1/target'') \<and>
   int8 ''0644'' = Some 420 \<and>
   fst (run_module (request ''/tmp/test1/link'' ''hello'' ''0644'' False) link_world) =
     Exit_json [(''created'', Bool True), (''path'', Str ''/tmp/test1/link''),
                (''content'', Str ''hello'')] \<and>
   wrote link_world (snd (run_module (request ''/tmp/test1/link'' ''hello'' ''0644'' False) link_world)) \<and>
   file_text (snd (run_module (request ''/tmp/test1/link'' ''hello'' ''0644'' False) link_world))
     ''/tmp/test1/target'' = Some ''hello''"
  by code_simp


text \<open>
  Claim C2, amended. When \<^verbatim>\<open>os.path.exists\<close> reports an entry at the path (a file, a
  directory, or a symbolic link that leads to one) and the parent check passes, then any
  number of runs in a row against that path, each with its own content, its own valid mode
  and check mode set or not, all exit successfully with \<^verbatim>\<open>created = False\<close> and the path
  and the content echoed back; the world is unchanged but for the log, which has gained
  the calls of the two checks for each run and no opening, writing or permission-setting.
\<close>

theorem existing_target_is_never_touched:
  assumes "\<forall>m \<in> set ms. param_path m = p \<and> int8 (param_mode m) \<noteq> None"
    and "os_path_dirname p = [] \<or> fst (os_path_isdir w (os_path_dirname p))"
    and "fst (os_path_exists w p)"
  shows "fst (run_many ms w) =
           map (\<lambda>m. Exit_json [(''created'', Bool False), (''path'', Str p),
                                 (''content'', Str (param_content m))]) ms \<and>
         snd (run_many ms w) = w\<lparr>calls := calls w @ concat (map (\<lambda>m. checks_log p) ms)\<rparr> \<and>
         \<not> wrote w (snd (run_many ms w))"
proof -
  have "\<not> list_ex writes (concat (map (\<lambda>m. checks_log p) ms))"
    by (induction ms) (simp_all add: checks_log_no_writes)
  then show ?thesis
    using run_many_existing [OF assms] by (simp add: wrote_def)
qed

theorem existing_target_is_never_touched_witness:
  "int8 ''0644'' \<noteq> None \<and> int8 ''0600'' \<noteq> None \<and>
   fst (os_path_isdir settled_world (os_path_dirname ''/tmp/test1/placeholder.txt'')) \<and>
   fst (os_path_exists settled_world ''/tmp/test1/placeholder.txt'') \<and>
   fst (run_many [request ''/tmp/test1/placeholder.txt'' ''hello'' ''0644'' False,
                  request ''/tmp/test1/placeholder.txt'' ''bye'' ''0600'' True] settled_world) =
     [Exit_json [(''created'', Bool False), (''path'', Str ''/tmp/test1/placeholder.txt''),
                 (''content'', Str ''hello'')],
      Exit_json [(''created'', Bool False), (''path'', Str ''/tmp/test1/placeholder.txt''),
                 (''content'', Str ''bye'')]] \<and>
   nodes (snd (run_many [request ''/tmp/test1/placeholder.txt'' ''hello'' ''0644'' False,
                         request ''/tmp/test1/placeholder.txt'' ''bye'' ''0600'' True] settled_world))
     = nodes settled_world \<and>
   file_text (snd (run_many [request ''/tmp/test1/placeholder.txt'' ''hello'' ''0644'' False,
                             request ''/tmp/test1/placeholder.txt'' ''bye'' ''0600'' True] settled_world))
     ''/tmp/test1/placeholder.txt'' = Some ''old''"
proof -
  let ?p = "''/tmp/test1/placeholder.txt''"
  let ?ms = "[request ?p ''hello'' ''0644'' False, request ?p ''bye'' ''0600'' True]"
  have h: "\<forall>m \<in> set ?ms. param_path m = ?p \<and> int8 (param_mode m) \<noteq> None"
    by (simp add: request_def int8_0644 int8_0600)
  have d: "os_path_dirname ?p = [] \<or> fst (os_path_isdir settled_world (os_path_dirname ?p))"
    by (simp add: dirname_placeholder settled_world_parent)
  note main = existing_target_is_never_touched [OF h d settled_world_present]
  have outs: "fst (run_many ?ms settled_world) =
     [Exit_json [(''created'', Bool False), (''path'', Str ?p), (''content'', Str ''hello'')],
      Exit_json [(''created'', Bool False), (''path'', Str ?p), (''content'', Str ''bye'')]]"
    unfolding main [THEN conjunct1] by (simp add: request_def)
  have same: "nodes (snd (run_many ?ms settled_world)) = nodes settled_world"
    unfolding main [THEN conjunct2, THEN conjunct1] by simp
  have kept: "file_text (snd (run_many ?ms settled_world)) ?p = Some ''old''"
    unfolding file_text_def same by (simp add: kernel_stat_no_link settled_world_simps)
  have par: "fst (os_path_isdir settled_world (os_path_dirname ?p))"
    by (simp add: dirname_placeholder settled_world_parent)
  show ?thesis
    using par settled_world_present outs same kept by (simp add: int8_0644 int8_0600)
qed




text \<open>
  Claim C9. The run fails with the ``Invalid mode'' message exactly when \<^verbatim>\<open>int(mode, 8)\<close>
  raises, and exactly then it makes no platform call; a mode string that \<^verbatim>\<open>int\<close> accepts
  goes on to the filesystem steps. \<^verbatim>\<open>int\<close> accepts more than plain octal digit strings:
  a sign, surrounding whitespace and the prefix \<^verbatim>\<open>0o\<close> all pass.
\<close>

theorem mode_is_valid_exactly_when_int_accepts_it:
  "(fst (run_module m w) = Fail_json [(''msg'', Str (msg_invalid_mode (param_mode m)))])
     = (int8 (param_mode m) = None) \<and>
   (calls (snd (run_module m w)) = calls w) = (int8 (param_mode m) = None) \<and>
   int8 ''-644'' = Some (- 420) \<and> int8 '' 644 '' = Some 420 \<and> int8 ''0o644'' = Some 420"
proof -
  have a: "(fst (run_module m w) = Fail_json [(''msg'', Str (msg_invalid_mode (param_mode m)))])
             = (int8 (param_mode m) = None)"
    by (auto simp: run_module_eq split: option.splits sum.splits prod.splits)
  have b: "(calls (snd (run_module m w)) = calls w) = (int8 (param_mode m) = None)"
  proof (cases "int8 (param_mode m)")
    case None
    then show ?thesis by (simp add: run_module_eq)
  next
    case (Some n)
    show ?thesis
    proof (cases "reaches_write m w \<and> \<not> check_mode m")
      case True
      obtain cs where "calls (snd (write_file (after_checks w (param_path m)) (param_path m)
                         (param_content m) (param_mode m))) =
                       calls (after_checks w (param_path m)) @ Open_w (param_path m) # cs"
        using write_file_calls by blast
      then show ?thesis
        using True Some by (simp add: at_write_run_world)
    next
      case False
      then show ?thesis
        using Some by (auto simp: run_module_eq reaches_write_def checks_log_def)
    qed
  qed
  show ?thesis
    using a b by (simp add: int8_minus_644 int8_spaced int8_prefixed)
qed

theorem mode_is_valid_exactly_when_int_accepts_it_witness:
  "int8 ''-644'' \<noteq> None \<and>
   fst (run_module (request ''/tmp/test1/placeholder.txt'' ''hello'' ''-644'' False) fresh_world) \<noteq>
     Fail_json [(''msg'', Str (msg_invalid_mode ''-644''))] \<and>
   calls (snd (run_module (request ''/tmp/test1/placeholder.txt'' ''hello'' ''-644'' False) fresh_world))
     \<noteq> calls fresh_world"
  using mode_is_valid_exactly_when_int_accepts_it
          [of "request ''/tmp/test1/placeholder.txt'' ''hello'' ''-644'' False" fresh_world]
  by (simp add: request_def)

text \<open>
  Claim C10. A run that does not get as far as the write step (the mode does not parse, or
  the parent check fails, or \<^verbatim>\<open>os.path.exists\<close> reports an entry) ends with the same
  outcome and the same world, platform calls included, whether check mode is set or not.
  A run that gets there has made the same checks in both modes; with check mode set it
  stops with \<^verbatim>\<open>created = True\<close>, with check mode unset it goes on to \<^verbatim>\<open>write_file\<close>.
  So the failure of a write is the outcome of a run with check mode unset only.
\<close>

theorem check_mode_differs_only_at_the_write:
  "(if reaches_write m w
    then run_module (m\<lparr>check_mode := True\<rparr>) w =
           (Exit_json [(''created'', Bool True), (''path'', Str (param_path m)),
                       (''content'', Str (param_content m))], after_checks w (param_path m)) \<and>
         run_module (m\<lparr>check_mode := False\<rparr>) w =
           (case write_file (after_checks w (param_path m)) (param_path m) (param_content m)
                   (param_mode m) of
              (Inl e, w3) \<Rightarrow>
                (Fail_json [(''msg'', Str (msg_write_failed (param_path m) e)),
                            (''created'', Bool True), (''path'', Str (param_path m)),
                            (''content'', Str (param_content m))], w3)
            | (Inr u, w3) \<Rightarrow>
                (Exit_json [(''created'', Bool True), (''path'', Str (param_path m)),
                            (''content'', Str (param_content m))], w3))
    else run_module (m\<lparr>check_mode := True\<rparr>) w = run_module (m\<lparr>check_mode := False\<rparr>) w) \<and>
   (\<forall>e d. fst (run_module m w) =
            Fail_json ((''msg'', Str (msg_write_failed (param_path m) e)) # d)
          \<longrightarrow> \<not> check_mode m)"
proof -
  have a: "reaches_write m w \<Longrightarrow>
             run_module (m\<lparr>check_mode := True\<rparr>) w =
               (Exit_json [(''created'', Bool True), (''path'', Str (param_path m)),
                           (''content'', Str (param_content m))], after_checks w (param_path m))"
    using at_write_check_mode [of "m\<lparr>check_mode := True\<rparr>" w] by simp
  have b: "reaches_write m w \<Longrightarrow>
             run_module (m\<lparr>check_mode := False\<rparr>) w =
               (case write_file (after_checks w (param_path m)) (param_path m) (param_content m)
                       (param_mode m) of
                  (Inl e, w3) \<Rightarrow>
                    (Fail_json [(''msg'', Str (msg_write_failed (param_path m) e)),
                                (''created'', Bool True), (''path'', Str (param_path m)),
                                (''content'', Str (param_content m))], w3)
                | (Inr u, w3) \<Rightarrow>
                    (Exit_json [(''created'', Bool True), (''path'', Str (param_path m)),
                                (''content'', Str (param_content m))], w3))"
    using at_write_run [of "m\<lparr>check_mode := False\<rparr>" w]
    by (simp split: prod.splits sum.splits)
  have c: "\<not> reaches_write m w \<Longrightarrow>
             run_module (m\<lparr>check_mode := True\<rparr>) w = run_module (m\<lparr>check_mode := False\<rparr>) w"
    using stops_before_write(1) [of m w] by simp
  have d: "check_mode m \<Longrightarrow>
             fst (run_module m w) \<noteq>
               Fail_json ((''msg'', Str (msg_write_failed (param_path m) e)) # d)" for e d
    by (auto simp: run_module_eq msg_write_failed_def msg_invalid_mode_def msg_parent_missing_def
             split: option.splits)
  show ?thesis
    using a b c d by auto
qed

theorem check_mode_differs_only_at_the_write_witness:
  "reaches_write (request ''/tmp/test1/placeholder.txt'' ''hello'' ''0644'' False) denied_world \<and>
   run_module (request ''/tmp/test1/placeholder.txt'' ''hello'' ''0644'' True) denied_world =
     (Exit_json [(''created'', Bool True), (''path'', Str ''/tmp/test1/placeholder.txt''),
                 (''content'', Str ''hello'')],
      after_checks denied_world ''/tmp/test1/placeholder.txt'') \<and>
   fst (run_module (request ''/tmp/test1/placeholder.txt'' ''hello'' ''0644'' False) denied_world) =
     Fail_json [(''msg'', Str (msg_write_failed ''/tmp/test1/placeholder.txt''
                                 (os_error 13 ''Permission denied'' ''/tmp/test1/placeholder.txt''))),
                (''created'', Bool True), (''path'', Str ''/tmp/test1/placeholder.txt''),
                (''content'', Str ''hello'')] \<and>
   \<not> check_mode (request ''/tmp/test1/placeholder.txt'' ''hello'' ''0644'' False)"
proof -
  let ?p = "''/tmp/test1/placeholder.txt''"
  let ?m = "request ?p ''hello'' ''0644'' False"
  have r: "reaches_write ?m denied_world"
    by (rule denied_world_reaches_write)
  have w: "write_file (after_checks denied_world ?p) ?p ''hello'' ''0644'' =
             (Inl (os_error 13 ''Permission denied'' ?p),
              log_call (Open_w ?p) (after_checks denied_world ?p))"
    by (simp add: write_file_refused denied_world_simps)
  note main = check_mode_differs_only_at_the_write [of ?m denied_world]
  have both:
    "run_module (request ?p ''hello'' ''0644'' True) denied_world =
       (Exit_json [(''created'', Bool True), (''path'', Str ?p), (''content'', Str ''hello'')],
        after_checks denied_world ?p) \<and>
     run_module ?m denied_world =
       (Fail_json [(''msg'', Str (msg_write_failed ?p (os_error 13 ''Permission denied'' ?p))),
                   (''created'', Bool True), (''path'', Str ?p), (''content'', Str ''hello'')],
        log_call (Open_w ?p) (after_checks denied_world ?p))"
    using main r by (simp add: request_check_mode request_simps w)
  have g: "run_module (request ?p ''hello'' ''0644'' True) denied_world =
     (Exit_json [(''created'', Bool True), (''path'', Str ?p), (''content'', Str ''hello'')],
      after_checks denied_world ?p)"
    using both by blast
  have f: "fst (run_module ?m denied_world) =
     Fail_json [(''msg'', Str (msg_write_failed ?p (os_error 13 ''Permission denied'' ?p))),
                (''created'', Bool True), (''path'', Str ?p), (''content'', Str ''hello'')]"
    using both by simp
  have n: "\<not> check_mode ?m"
    by (simp add: request_simps)
  show ?thesis
    using r f g n by blast
qed

end
